theory Spec2Isabelle
  imports Complex_Main
begin

section \<open>The ledger store (tradingbot/data\_manager.py)\<close>

text \<open>
  Amounts and prices are Python floats stored in SQLite \<open>REAL\<close> columns. They are
  modelled as exact reals: the development is about the decision logic and the
  bookkeeping, not about binary rounding. Timestamps (\<open>datetime.now()\<close> formatted as a
  string) are passed in as a parameter \<open>now\<close>.

  The three tables of \<open>_create_tables\<close>. A table is the list of its rows in rowid
  order, which is the order \<open>SELECT *\<close> returns them in.
\<close>

record open_row =
  o_Id :: int
  o_BuyDate :: string
  o_BuyAmountUSD :: real
  o_AmountBTC :: real
  o_BuyPrice :: real

record close_row =
  c_Id :: int
  c_BuyDate :: string
  c_SellDate :: string
  c_BuyAmountUSD :: real
  c_SellAmountUSD :: real
  c_AmountBTC :: real
  c_BuyPrice :: real
  c_SellPrice :: real
  c_Profit :: real

text \<open>
  A value bound to a column of the \<open>KPI\<close> table, and the dictionary handed to
  \<open>insert_kpis\<close>.
\<close>

datatype kpi_value = Text string | Number real | Count int

record kpi_row =
  k_Date :: kpi_value
  k_TotalProfit :: kpi_value
  k_TotalInvestment :: kpi_value
  k_TotalOperations :: kpi_value
  k_WinningTrades :: kpi_value
  k_LosingTrades :: kpi_value
  k_AverageProfitPerTrade :: kpi_value
  k_ROI :: kpi_value

record store =
  Open_tbl :: "open_row list"
  Close_tbl :: "close_row list"
  KPI_tbl :: "kpi_row list"

text \<open>
  The exceptions the modelled code can raise. A function that can raise returns
  \<open>error + 'a\<close>, with \<open>Inl\<close> for the exception.
\<close>

datatype error =
  BinanceAPIException
| TypeError
| KeyError
| IndexError
| ZeroDivisionError
| AttributeError
| ProgrammingError
| IntegrityError
| OverflowError

text \<open>
  An SQLite integer has 64 bits, signed. Binding a Python \<open>int\<close> outside that range
  to a placeholder makes sqlite3 raise \<open>OverflowError\<close> before the statement runs.
\<close>

definition sqlite_int :: "int \<Rightarrow> bool" where
  "sqlite_int i \<longleftrightarrow> - (2 ^ 63) \<le> i \<and> i < 2 ^ 63"

definition empty_store :: store where
  "empty_store = \<lparr>Open_tbl = [], Close_tbl = [], KPI_tbl = []\<rparr>"

text \<open>
  Both \<open>Open\<close> and \<open>Close\<close> declare \<open>Id INTEGER PRIMARY KEY\<close> and every
  \<open>INSERT\<close> of the source leaves \<open>Id\<close> out, so SQLite assigns it: one more than the
  largest rowid in the table, and 1 in an empty table.
\<close>

definition next_rowid :: "int list \<Rightarrow> int" where
  "next_rowid ids = (if ids = [] then 1 else Max (set ids) + 1)"

definition record_buy :: "string \<Rightarrow> real \<Rightarrow> real \<Rightarrow> real \<Rightarrow> store \<Rightarrow> store" where
  "record_buy now buy_amount_usd amount_btc buy_price s =
     s\<lparr>Open_tbl := Open_tbl s @
          [\<lparr>o_Id = next_rowid (map o_Id (Open_tbl s)),
            o_BuyDate = now,
            o_BuyAmountUSD = buy_amount_usd,
            o_AmountBTC = amount_btc,
            o_BuyPrice = buy_price\<rparr>]\<rparr>"

text \<open>\<open>SELECT * FROM Open WHERE Id = ?\<close> followed by \<open>fetchone()\<close>.\<close>

definition select_open :: "int \<Rightarrow> store \<Rightarrow> open_row option" where
  "select_open i s = find (\<lambda>r. o_Id r = i) (Open_tbl s)"

text \<open>
  \<open>record_sell\<close>: the \<open>SELECT\<close> binds the id, which raises \<open>OverflowError\<close> for
  an id that is no SQLite integer. When the row is found, the \<open>INSERT INTO Close\<close>,
  the \<open>DELETE FROM Open WHERE Id = ?\<close> and the \<open>commit\<close> make one transition of
  the store; when it is not found (\<open>fetchone()\<close> gives \<open>None\<close>) nothing is executed.
\<close>

definition record_sell :: "string \<Rightarrow> int \<Rightarrow> real \<Rightarrow> real \<Rightarrow> store \<Rightarrow> error + store" where
  "record_sell now i sell_amount_usd sell_price s =
     (if \<not> sqlite_int i then Inl OverflowError
      else case select_open i s of
        None \<Rightarrow> Inr s
      | Some transaction \<Rightarrow>
          (let buy_date = o_BuyDate transaction;
               buy_amount_usd = o_BuyAmountUSD transaction;
               amount_btc = o_AmountBTC transaction;
               buy_price = o_BuyPrice transaction;
               sell_date = now;
               profit = sell_amount_usd - buy_amount_usd
           in Inr (s\<lparr>Close_tbl := Close_tbl s @
                   [\<lparr>c_Id = next_rowid (map c_Id (Close_tbl s)),
                     c_BuyDate = buy_date,
                     c_SellDate = sell_date,
                     c_BuyAmountUSD = buy_amount_usd,
                     c_SellAmountUSD = sell_amount_usd,
                     c_AmountBTC = amount_btc,
                     c_BuyPrice = buy_price,
                     c_SellPrice = sell_price,
                     c_Profit = profit\<rparr>],
                 Open_tbl := filter (\<lambda>r. o_Id r \<noteq> i) (Open_tbl s)\<rparr>)))"

definition get_open_positions :: "store \<Rightarrow> open_row list" where
  "get_open_positions s = Open_tbl s"

text \<open>
  A sequence of ledger operations, run from left to right. An operation that raises
  leaves the ledger as it was, and the sequence goes on.
\<close>

datatype ledger_op =
  RecordBuy string real real real
| RecordSell string int real real

fun apply_ledger_op :: "ledger_op \<Rightarrow> store \<Rightarrow> store" where
  "apply_ledger_op (RecordBuy now usd btc price) s = record_buy now usd btc price s"
| "apply_ledger_op (RecordSell now i usd price) s =
     (case record_sell now i usd price s of Inl e \<Rightarrow> s | Inr s' \<Rightarrow> s')"

definition run_ledger :: "ledger_op list \<Rightarrow> store \<Rightarrow> store" where
  "run_ledger ops s = fold apply_ledger_op ops s"

fun is_record_buy :: "ledger_op \<Rightarrow> bool" where
  "is_record_buy (RecordBuy now usd btc price) = True"
| "is_record_buy (RecordSell now i usd price) = False"

text \<open>
  What every ledger reachable from the empty one satisfies: open ids are pairwise
  distinct, the ids of \<open>Close\<close> count up from 1, and every stored profit is the
  difference of the stored amounts.
\<close>

definition ledger_inv :: "store \<Rightarrow> bool" where
  "ledger_inv s \<longleftrightarrow> distinct (map o_Id (Open_tbl s))
      \<and> map c_Id (Close_tbl s) = [1..int (length (Close_tbl s))]
      \<and> (\<forall>c\<in>set (Close_tbl s). c_Profit c = c_SellAmountUSD c - c_BuyAmountUSD c)"

section \<open>Exceptions and the exchange client\<close>

definition bind_r :: "error + 'a \<Rightarrow> ('a \<Rightarrow> error + 'b) \<Rightarrow> error + 'b" where
  "bind_r m f = (case m of Inl e \<Rightarrow> Inl e | Inr v \<Rightarrow> f v)"

text \<open>
  A call of the python-binance client either returns or raises \<open>BinanceAPIException\<close>,
  the one failure the source's docstrings and handlers name.
\<close>

datatype 'a outcome = Returns 'a | ApiFails

definition client_call :: "'a outcome \<Rightarrow> error + 'a" where
  "client_call r = (case r of Returns v \<Rightarrow> Inr v | ApiFails \<Rightarrow> Inl BinanceAPIException)"

record fill =
  f_price :: real
  f_qty :: real

record order =
  fills :: "fill list"

text \<open>
  The answers of the client during one cycle.
  \<open>get_historical_klines\<close> gives the close (index 4) of each returned daily candle, oldest
  first; \<open>get_symbol_ticker\<close> the \<open>price\<close> field; \<open>get_symbol_info\<close> the number
  \<open>d\<close> of decimals of the \<open>LOT_SIZE\<close> step \<open>10\<^sup>-\<^sup>d\<close> (so that
  \<open>-math.log10(step_size)\<close> is \<open>d\<close>); \<open>get_account\<close> the \<open>(asset, free)\<close> pairs
  of the account, each asset once; the order functions answer a quantity with the
  order response, of which the code reads \<open>fills\<close>. An answer depends on the
  request only.
\<close>

record exchange =
  get_historical_klines :: "string \<Rightarrow> real list outcome"
  get_symbol_ticker :: "string \<Rightarrow> real outcome"
  get_symbol_info :: "string \<Rightarrow> nat outcome"
  get_account :: "(string \<times> real) list outcome"
  order_market_buy :: "string \<Rightarrow> real \<Rightarrow> order outcome"
  order_market_sell :: "string \<Rightarrow> real \<Rightarrow> order outcome"

section \<open>The bots (tradingbot/bots.py)\<close>

definition round_down :: "real \<Rightarrow> nat \<Rightarrow> real" where
  "round_down v decimals = (let factor = 10 ^ decimals in of_int \<lfloor>v * factor\<rfloor> / factor)"

text \<open>
  The body of the \<open>try\<close> block of \<open>BinanceBot.execute_order\<close>: its result, and
  the orders it has placed on the client, as (is\_buy, quantity). The order is placed
  whether the client then answers or raises.
\<close>

definition execute_order_try ::
  "exchange \<Rightarrow> string \<Rightarrow> real \<Rightarrow> bool \<Rightarrow> bool \<Rightarrow> (error + order) \<times> (bool \<times> real) list" where
  "execute_order_try ex symbol amount is_buy is_amount_in_usd =
     (case (if is_amount_in_usd
            then bind_r (client_call (get_symbol_ticker ex symbol))
                   (\<lambda>price. if price = 0 then Inl ZeroDivisionError else Inr (amount / price))
            else Inr amount) of
        Inl e \<Rightarrow> (Inl e, [])
      | Inr amount1 \<Rightarrow>
          (case client_call (get_symbol_info ex symbol) of
             Inl e \<Rightarrow> (Inl e, [])
           | Inr decimals \<Rightarrow>
               (let amount2 = round_down amount1 decimals;
                    order_func = (if is_buy then order_market_buy ex else order_market_sell ex)
                in (client_call (order_func symbol amount2), [(is_buy, amount2)]))))"

text \<open>
  \<open>execute_order\<close>: \<open>except BinanceAPIException\<close> prints and returns \<open>None\<close>; any
  other exception leaves the function.
\<close>

definition execute_order ::
  "exchange \<Rightarrow> string \<Rightarrow> real \<Rightarrow> bool \<Rightarrow> bool \<Rightarrow> (error + order option) \<times> (bool \<times> real) list" where
  "execute_order ex symbol amount is_buy is_amount_in_usd =
     (case execute_order_try ex symbol amount is_buy is_amount_in_usd of
        (Inr order, placed) \<Rightarrow> (Inr (Some order), placed)
      | (Inl BinanceAPIException, placed) \<Rightarrow> (Inr None, placed)
      | (Inl e, placed) \<Rightarrow> (Inl e, placed))"

text \<open>
  \<open>get_account_balances\<close>: the dictionary from asset to (balance, value in USD). A
  failing \<open>get_account\<close> gives the empty dictionary; a failing ticker skips the asset.
\<close>

definition get_account_balances :: "exchange \<Rightarrow> (string \<rightharpoonup> real \<times> real)" where
  "get_account_balances ex =
     (case get_account ex of
        ApiFails \<Rightarrow> Map.empty
      | Returns account_info \<Rightarrow>
          (let balances = filter (\<lambda>(asset, free). free > 0) account_info
           in fold (\<lambda>(asset, balance) balances_in_usd.
                      if asset \<noteq> ''USDT''
                      then (case get_symbol_ticker ex (asset @ ''USDT'') of
                              ApiFails \<Rightarrow> balances_in_usd
                            | Returns price \<Rightarrow>
                                if price * balance > 10
                                then balances_in_usd(asset \<mapsto> (balance, price * balance))
                                else balances_in_usd)
                      else balances_in_usd(''USD'' \<mapsto> (balance, balance)))
                balances Map.empty))"

text \<open>\<open>_get_minimum_buy_price\<close>; \<open>None\<close> of Python is \<open>None\<close> here.\<close>

definition get_minimum_buy_price :: "open_row list \<Rightarrow> real option" where
  "get_minimum_buy_price positions =
     (if positions = [] then None
      else (let buy_prices = map o_BuyPrice positions
            in if buy_prices \<noteq> [] then Some (min_list buy_prices) else None))"

text \<open>
  The state a cycle works on: the ledger; the log of the calls of \<open>execute_order\<close> as
  (amount, is\_buy, is\_amount\_in\_usd); and the log of the market orders placed on the
  client as (is\_buy, quantity), which is what the exchange sees of the bot.
\<close>

record world =
  db :: store
  calls :: "(real \<times> bool \<times> bool) list"
  orders :: "(bool \<times> real) list"

text \<open>
  \<open>compare_and_buy\<close>. The condition is a chain of \<open>and\<close>, evaluated left to right and
  cut short at the first false conjunct; comparing a float with \<open>None\<close> raises
  \<open>TypeError\<close>; \<open>prices[0]\<close>, \<open>prices[1]\<close> and \<open>order["fills"][0]\<close> raise
  \<open>IndexError\<close> out of range; \<open>get_account_balances()["USD"]\<close> raises \<open>KeyError\<close>
  when the key is missing. No handler is installed in this method.
\<close>

definition compare_and_buy ::
  "exchange \<Rightarrow> real \<Rightarrow> string \<Rightarrow> string \<Rightarrow> world \<Rightarrow> (error + unit) \<times> world" where
  "compare_and_buy ex invest_amount_usd now symbol w =
     (let positions = get_open_positions (db w);
          min_buy_price = get_minimum_buy_price positions
      in case get_historical_klines ex symbol of
           ApiFails \<Rightarrow> (Inl BinanceAPIException, w)
         | Returns prices \<Rightarrow>
             if length prices < 2 then (Inl IndexError, w)
             else (let price_yesterday = prices ! 0;
                       price_today = prices ! 1
                   in if \<not> (price_today * 1.01 < price_yesterday) then (Inr (), w)
                      else (case min_buy_price of
                              None \<Rightarrow> (Inl TypeError, w)
                            | Some m \<Rightarrow>
                                if \<not> (price_today * 1.01 < m) then (Inr (), w)
                                else (case get_account_balances ex ''USD'' of
                                        None \<Rightarrow> (Inl KeyError, w)
                                      | Some usd \<Rightarrow>
                                          if \<not> (invest_amount_usd < snd usd) then (Inr (), w)
                                          else (let (order, placed) = execute_order ex symbol invest_amount_usd True True;
                                                    w1 = w\<lparr>calls := calls w @ [(invest_amount_usd, True, True)],
                                                           orders := orders w @ placed\<rparr>
                                                in case order of
                                                     Inl e \<Rightarrow> (Inl e, w1)
                                                   | Inr None \<Rightarrow> (Inr (), w1)
                                                   | Inr (Some order) \<Rightarrow>
                                                       (case fills order of
                                                          [] \<Rightarrow> (Inl IndexError, w1)
                                                        | f # rest \<Rightarrow>
                                                            (Inr (), w1\<lparr>db := record_buy now invest_amount_usd
                                                                              (f_qty f) (f_price f) (db w1)\<rparr>)))))))"

text \<open>
  The \<open>for\<close> loop of \<open>check_and_close_positions\<close> over the positions fetched before
  the loop.
\<close>

fun close_loop ::
  "exchange \<Rightarrow> string \<Rightarrow> string \<Rightarrow> real \<Rightarrow> open_row list \<Rightarrow> world \<Rightarrow> (error + unit) \<times> world" where
  "close_loop ex now symbol current_price [] w = (Inr (), w)"
| "close_loop ex now symbol current_price (position # rest) w =
     (if current_price > o_BuyPrice position * 1.01
      then (let amount_to_sell = o_AmountBTC position;
                (order, placed) = execute_order ex symbol amount_to_sell False False;
                w1 = w\<lparr>calls := calls w @ [(amount_to_sell, False, False)],
                       orders := orders w @ placed\<rparr>
            in case order of
                 Inl e \<Rightarrow> (Inl e, w1)
               | Inr None \<Rightarrow> close_loop ex now symbol current_price rest w1
               | Inr (Some order) \<Rightarrow>
                   (case record_sell now (o_Id position)
                           (amount_to_sell * current_price) current_price (db w1) of
                      Inl e \<Rightarrow> (Inl e, w1)
                    | Inr s \<Rightarrow> close_loop ex now symbol current_price rest (w1\<lparr>db := s\<rparr>)))
      else close_loop ex now symbol current_price rest w)"

definition check_and_close_positions ::
  "exchange \<Rightarrow> string \<Rightarrow> string \<Rightarrow> world \<Rightarrow> (error + unit) \<times> world" where
  "check_and_close_positions ex now symbol w =
     (let open_positions = get_open_positions (db w)
      in case get_symbol_ticker ex symbol of
           ApiFails \<Rightarrow> (Inl BinanceAPIException, w)
         | Returns current_price \<Rightarrow> close_loop ex now symbol current_price open_positions w)"

section \<open>Listing closed trades and the KPI table (tradingbot/data\_manager.py)\<close>

text \<open>
  Python's \<open>round(x, ndigits)\<close> on a float: the nearest multiple of
  \<open>10\<^sup>-\<^sup>n\<close>, a tie going to the even one.
\<close>

definition round_half_even :: "real \<Rightarrow> int" where
  "round_half_even y =
     (let f = \<lfloor>y\<rfloor>; d = y - of_int f
      in if d < 1 / 2 then f
         else if 1 / 2 < d then f + 1
         else if even f then f else f + 1)"

definition py_round :: "real \<Rightarrow> nat \<Rightarrow> real" where
  "py_round x ndigits = of_int (round_half_even (x * 10 ^ ndigits)) / 10 ^ ndigits"

text \<open>The dictionaries \<open>get_close_positions\<close> returns: no \<open>Id\<close> key.\<close>

record closed_position =
  p_BuyDate :: string
  p_SellDate :: string
  p_BuyAmountUSD :: real
  p_SellAmountUSD :: real
  p_AmountBTC :: real
  p_BuyPrice :: real
  p_SellPrice :: real
  p_Profit :: real

definition get_close_positions :: "store \<Rightarrow> closed_position list" where
  "get_close_positions s =
     map (\<lambda>position.
            \<lparr>p_BuyDate = c_BuyDate position,
             p_SellDate = c_SellDate position,
             p_BuyAmountUSD = c_BuyAmountUSD position,
             p_SellAmountUSD = c_SellAmountUSD position,
             p_AmountBTC = c_AmountBTC position,
             p_BuyPrice = c_BuyPrice position,
             p_SellPrice = c_SellPrice position,
             p_Profit = py_round (c_Profit position) 2\<rparr>)
         (Close_tbl s)"

text \<open>
  The methods of \<open>TradingDataManager\<close> that return closed positions, by name. The class
  defines \<open>get_close_positions\<close> and no other; looking up any other name on an instance
  raises \<open>AttributeError\<close>.
\<close>

definition data_manager_listing :: "string \<Rightarrow> (store \<Rightarrow> closed_position list) option" where
  "data_manager_listing name =
     (if name = ''get_close_positions'' then Some get_close_positions else None)"

definition call_listing :: "string \<Rightarrow> store \<Rightarrow> error + closed_position list" where
  "call_listing name s =
     (case data_manager_listing name of
        None \<Rightarrow> Inl AttributeError
      | Some method \<Rightarrow> Inr (method s))"

text \<open>
  \<open>insert_kpis\<close> binds the named placeholders \<open>:Date\<close>, \<open>:TotalProfit\<close>, ... from
  the dictionary; sqlite3 raises \<open>ProgrammingError\<close> when the dictionary has no value
  for one of them, and \<open>IntegrityError\<close> when the primary key \<open>Date\<close> is taken.
\<close>

definition insert_kpis ::
  "(string \<rightharpoonup> kpi_value) \<Rightarrow> kpi_row list \<Rightarrow> error + kpi_row list" where
  "insert_kpis kpis tbl =
     (case (kpis ''Date'', kpis ''TotalProfit'', kpis ''TotalInvestment'',
            kpis ''TotalOperations'', kpis ''WinningTrades'', kpis ''LosingTrades'',
            kpis ''AverageProfitPerTrade'', kpis ''ROI'') of
        (Some d, Some tp, Some ti, Some n, Some wt, Some lt, Some ap, Some roi) \<Rightarrow>
          if d \<in> k_Date ` set tbl then Inl IntegrityError
          else Inr (tbl @ [\<lparr>k_Date = d, k_TotalProfit = tp, k_TotalInvestment = ti,
                            k_TotalOperations = n, k_WinningTrades = wt, k_LosingTrades = lt,
                            k_AverageProfitPerTrade = ap, k_ROI = roi\<rparr>])
      | _ \<Rightarrow> Inl ProgrammingError)"

section \<open>The KPI aggregator (tradingbot/kpis.py)\<close>

text \<open>
  Every getter starts with \<open>self.data_manager.get_closed_positions()\<close>. What each
  computes from the list it gets is a function of its own, named after the local
  variable of the source with \<open>_of\<close> added.
\<close>

definition total_profit_of :: "closed_position list \<Rightarrow> real" where
  "total_profit_of closed_positions = sum_list (map p_Profit closed_positions)"

definition total_investment_of :: "closed_position list \<Rightarrow> real" where
  "total_investment_of closed_positions = sum_list (map p_BuyAmountUSD closed_positions)"

definition winning_trades_of :: "closed_position list \<Rightarrow> int" where
  "winning_trades_of closed_positions =
     int (length (filter (\<lambda>pos. p_Profit pos > 0) closed_positions))"

definition losing_trades_of :: "closed_position list \<Rightarrow> int" where
  "losing_trades_of closed_positions =
     int (length (filter (\<lambda>pos. p_Profit pos \<le> 0) closed_positions))"

definition average_profit_per_trade_of :: "real \<Rightarrow> int \<Rightarrow> real" where
  "average_profit_per_trade_of total_profit total_operations =
     (if total_operations > 0 then total_profit / of_int total_operations else 0)"

definition roi_percentage_of :: "real \<Rightarrow> real \<Rightarrow> real" where
  "roi_percentage_of total_profit total_investment =
     (if total_investment > 0 then (total_profit / total_investment) * 100 else 0)"

definition get_total_profit :: "store \<Rightarrow> error + real" where
  "get_total_profit s =
     bind_r (call_listing ''get_closed_positions'' s)
       (\<lambda>closed_positions. Inr (total_profit_of closed_positions))"

definition get_total_investment :: "store \<Rightarrow> error + real" where
  "get_total_investment s =
     bind_r (call_listing ''get_closed_positions'' s)
       (\<lambda>closed_positions. Inr (total_investment_of closed_positions))"

definition get_total_operations :: "store \<Rightarrow> error + int" where
  "get_total_operations s =
     bind_r (call_listing ''get_closed_positions'' s)
       (\<lambda>closed_positions. Inr (int (length closed_positions)))"

definition get_winning_trades :: "store \<Rightarrow> error + int" where
  "get_winning_trades s =
     bind_r (call_listing ''get_closed_positions'' s)
       (\<lambda>closed_positions. Inr (winning_trades_of closed_positions))"

definition get_losing_trades :: "store \<Rightarrow> error + int" where
  "get_losing_trades s =
     bind_r (call_listing ''get_closed_positions'' s)
       (\<lambda>closed_positions. Inr (losing_trades_of closed_positions))"

definition get_average_profit_per_trade :: "store \<Rightarrow> error + real" where
  "get_average_profit_per_trade s =
     bind_r (get_total_profit s) (\<lambda>total_profit.
     bind_r (get_total_operations s) (\<lambda>total_operations.
       Inr (average_profit_per_trade_of total_profit total_operations)))"

definition get_roi_percentage :: "store \<Rightarrow> error + real" where
  "get_roi_percentage s =
     bind_r (get_total_profit s) (\<lambda>total_profit.
     bind_r (get_total_investment s) (\<lambda>total_investment.
       Inr (roi_percentage_of total_profit total_investment)))"

text \<open>
  \<open>calculate_unrealized_losses\<close>: the loop body starts with \<open>self.client\<close>, an
  attribute \<open>TradingBotKPIs\<close> never sets, so the first open position raises
  \<open>AttributeError\<close>; without open positions the totals stay 0.
\<close>

definition calculate_unrealized_losses :: "store \<Rightarrow> error + real \<times> int" where
  "calculate_unrealized_losses s =
     (let open_positions = get_open_positions s
      in if open_positions = [] then Inr (0, 0) else Inl AttributeError)"

definition calculate_win_rate :: "store \<Rightarrow> error + real" where
  "calculate_win_rate s =
     bind_r (call_listing ''get_closed_positions'' s)
       (\<lambda>closed_positions.
          (let wins = winning_trades_of closed_positions;
               total = int (length closed_positions)
           in Inr (if total = 0 then 0 else (of_int wins / of_int total) * 100)))"

definition calculate_total_return :: "store \<Rightarrow> error + real" where
  "calculate_total_return s =
     bind_r (call_listing ''get_closed_positions'' s)
       (\<lambda>closed_positions.
          (let total_invested = sum_list (map p_BuyAmountUSD closed_positions);
               total_returned = sum_list (map p_SellAmountUSD closed_positions)
           in Inr (if total_invested = 0 then 0
                   else ((total_returned - total_invested) / total_invested) * 100)))"

text \<open>
  \<open>get_performance_metrics\<close> evaluates the entries of the dictionary literal in
  order, hands the dictionary to \<open>insert_kpis\<close> and returns it.
\<close>

definition performance_metrics_dict :: "string \<Rightarrow> store \<Rightarrow> error + (string \<rightharpoonup> kpi_value)" where
  "performance_metrics_dict now s =
     bind_r (get_total_profit s) (\<lambda>tp.
     bind_r (get_total_investment s) (\<lambda>ti.
     bind_r (get_total_operations s) (\<lambda>n.
     bind_r (get_winning_trades s) (\<lambda>wt.
     bind_r (get_losing_trades s) (\<lambda>lt.
     bind_r (get_average_profit_per_trade s) (\<lambda>ap.
     bind_r (get_roi_percentage s) (\<lambda>roi.
     bind_r (calculate_unrealized_losses s) (\<lambda>ul0.
     bind_r (calculate_unrealized_losses s) (\<lambda>ul1.
     bind_r (calculate_win_rate s) (\<lambda>wr.
     bind_r (calculate_total_return s) (\<lambda>tr.
       Inr [''date'' \<mapsto> Text now,
            ''total_profit_usd'' \<mapsto> Number tp,
            ''total_investment_usd'' \<mapsto> Number ti,
            ''total_operations'' \<mapsto> Count n,
            ''winning_trades'' \<mapsto> Count wt,
            ''losing_trades'' \<mapsto> Count lt,
            ''average_profit_per_trade_usd'' \<mapsto> Number ap,
            ''roi_percentage'' \<mapsto> Number roi,
            ''unralized_losses'' \<mapsto> Number (fst ul0),
            ''losing_positions_count'' \<mapsto> Count (snd ul1),
            ''calculate_win_rate'' \<mapsto> Number wr,
            ''calculate_total_return'' \<mapsto> Number tr])))))))))))"

definition get_performance_metrics ::
  "string \<Rightarrow> store \<Rightarrow> (error + (string \<rightharpoonup> kpi_value)) \<times> store" where
  "get_performance_metrics now s =
     (case performance_metrics_dict now s of
        Inl e \<Rightarrow> (Inl e, s)
      | Inr kpis \<Rightarrow>
          (case insert_kpis kpis (KPI_tbl s) of
             Inl e \<Rightarrow> (Inl e, s)
           | Inr tbl \<Rightarrow> (Inr kpis, s\<lparr>KPI_tbl := tbl\<rparr>)))"

section \<open>The sell rule in the words of the specification\<close>

text \<open>
  A position is due for sale when the current price exceeds its buy price by more than
  1 percent; its sale is filled when \<open>execute_order\<close>, asked to sell the position's
  whole base amount, returns an order; a due position whose sale is filled is sold. The
  closed trade expected for a sold position takes \<open>amount \<times> current price\<close> as sell
  proceeds and the current price as sell price. \<open>trade_of\<close> reads the same columns
  off a row of \<open>Close\<close>, leaving its id out. \<open>sqlite_rows\<close> says of a list of rows
  what holds of every \<open>Open\<close> table: each id is an SQLite integer.
\<close>

definition sell_due :: "real \<Rightarrow> open_row \<Rightarrow> bool" where
  "sell_due current_price p \<longleftrightarrow> current_price > o_BuyPrice p * 1.01"

definition sell_filled :: "exchange \<Rightarrow> string \<Rightarrow> open_row \<Rightarrow> bool" where
  "sell_filled ex symbol p =
     (case fst (execute_order ex symbol (o_AmountBTC p) False False) of
        Inr (Some order) \<Rightarrow> True
      | _ \<Rightarrow> False)"

definition sqlite_rows :: "open_row list \<Rightarrow> bool" where
  "sqlite_rows ps \<longleftrightarrow> (\<forall>p\<in>set ps. sqlite_int (o_Id p))"

definition sold :: "exchange \<Rightarrow> string \<Rightarrow> real \<Rightarrow> open_row \<Rightarrow> bool" where
  "sold ex symbol current_price p \<longleftrightarrow> sell_due current_price p \<and> sell_filled ex symbol p"

type_synonym trade = "string \<times> string \<times> real \<times> real \<times> real \<times> real \<times> real \<times> real"

definition trade_of :: "close_row \<Rightarrow> trade" where
  "trade_of c = (c_BuyDate c, c_SellDate c, c_BuyAmountUSD c, c_SellAmountUSD c,
                 c_AmountBTC c, c_BuyPrice c, c_SellPrice c, c_Profit c)"

definition expected_close :: "string \<Rightarrow> real \<Rightarrow> open_row \<Rightarrow> trade" where
  "expected_close now current_price p =
     (o_BuyDate p, now, o_BuyAmountUSD p, o_AmountBTC p * current_price,
      o_AmountBTC p, o_BuyPrice p, current_price,
      o_AmountBTC p * current_price - o_BuyAmountUSD p)"

section \<open>Concrete inputs\<close>

text \<open>
  An exchange whose candles close at 110 and then 100, whose ticker says 100, whose lot
  step is \<open>10\<^sup>-\<^sup>5\<close>, whose account holds 1000 USDT, whose market buy is filled
  in two parts (0.4 at 100 and 0.6 at 101) and whose market sell fails for the quantity 2
  and is filled in one part otherwise.
\<close>

definition example_exchange :: exchange where
  "example_exchange =
     \<lparr>get_historical_klines = (\<lambda>symbol. Returns [110, 100]),
      get_symbol_ticker = (\<lambda>symbol. Returns 100),
      get_symbol_info = (\<lambda>symbol. Returns 5),
      get_account = Returns [(''USDT'', 1000)],
      order_market_buy = (\<lambda>symbol quantity.
         Returns \<lparr>fills = [\<lparr>f_price = 100, f_qty = 0.4\<rparr>, \<lparr>f_price = 101, f_qty = 0.6\<rparr>]\<rparr>),
      order_market_sell = (\<lambda>symbol quantity.
         if quantity = 2 then ApiFails
         else Returns \<lparr>fills = [\<lparr>f_price = 100, f_qty = quantity\<rparr>]\<rparr>)\<rparr>"

definition empty_world :: world where
  "empty_world = \<lparr>db = empty_store, calls = [], orders = []\<rparr>"

definition position :: "int \<Rightarrow> real \<Rightarrow> real \<Rightarrow> open_row" where
  "position i amount_btc buy_price =
     \<lparr>o_Id = i, o_BuyDate = ''t0'', o_BuyAmountUSD = amount_btc * buy_price,
      o_AmountBTC = amount_btc, o_BuyPrice = buy_price\<rparr>"

definition world_with :: "open_row list \<Rightarrow> world" where
  "world_with positions =
     \<lparr>db = \<lparr>Open_tbl = positions, Close_tbl = [], KPI_tbl = []\<rparr>, calls = [], orders = []\<rparr>"

section \<open>Properties of the ledger store\<close>

lemma select_open_None_iff: "select_open i s = None \<longleftrightarrow> i \<notin> o_Id ` set (Open_tbl s)"
  by (auto simp: select_open_def find_None_iff)

lemma select_open_SomeD:
  "select_open i s = Some p \<Longrightarrow> p \<in> set (Open_tbl s) \<and> o_Id p = i"
  by (auto simp: select_open_def find_Some_iff)

text \<open>
  C5, as stated, fails: the id \<open>2\<^sup>6\<^sup>3\<close> is not among the open positions of
  the empty store, and \<open>record_sell\<close> raises \<open>OverflowError\<close> to its caller.
\<close>

theorem record_sell_huge_id_counterexample:
  "9223372036854775808 \<notin> o_Id ` set (Open_tbl empty_store)
   \<and> record_sell ''t1'' 9223372036854775808 103 103 empty_store = Inl OverflowError"
  by (simp add: record_sell_def sqlite_int_def empty_store_def)

text \<open>
  C5, amended. A \<open>record_sell\<close> whose id is an SQLite integer (64 bits, signed) and
  is not among the open positions returns the store it was given, without raising: no
  row is inserted into \<open>Close\<close> and none is deleted from \<open>Open\<close>. With an id
  outside that range it raises \<open>OverflowError\<close>, and no store is written either.
\<close>

theorem record_sell_absent_noop:
  "i \<notin> o_Id ` set (Open_tbl s) \<Longrightarrow>
   record_sell now i sell_amount_usd sell_price s
     = (if sqlite_int i then Inr s else Inl OverflowError)"
  using select_open_None_iff [of i s] by (simp add: record_sell_def)

theorem record_sell_absent_noop_witness:
  "(7::int) \<notin> o_Id ` set (Open_tbl (record_buy ''t0'' 100 1 100 empty_store))
   \<and> sqlite_int 7
   \<and> record_sell ''t1'' 7 103 103 (record_buy ''t0'' 100 1 100 empty_store)
       = Inr (record_buy ''t0'' 100 1 100 empty_store)"
proof -
  have h: "(7::int) \<notin> o_Id ` set (Open_tbl (record_buy ''t0'' 100 1 100 empty_store))"
    by (simp add: record_buy_def empty_store_def next_rowid_def)
  have r: "sqlite_int 7" by (simp add: sqlite_int_def)
  from record_sell_absent_noop [OF h, of "''t1''" 103 103]
  have "record_sell ''t1'' 7 103 103 (record_buy ''t0'' 100 1 100 empty_store)
       = Inr (record_buy ''t0'' 100 1 100 empty_store)"
    by (simp only: r if_True)
  with h r show ?thesis by (intro conjI)
qed

lemma next_rowid_fresh: "next_rowid ids \<notin> set ids"
proof
  assume a: "next_rowid ids \<in> set ids"
  then have ne: "ids \<noteq> []" by auto
  from a have "next_rowid ids \<le> Max (set ids)" by (intro Max_ge) auto
  with ne show False by (simp add: next_rowid_def)
qed

lemma next_rowid_upto: "next_rowid [1..n] = (if n < 1 then 1 else n + 1)"
proof (cases "n < 1")
  case True then show ?thesis by (simp add: next_rowid_def)
next
  case False
  then have "Max {1..n} = n" by (intro Max_eqI) auto
  with False show ?thesis by (simp add: next_rowid_def)
qed

lemma record_buy_tables:
  "Open_tbl (record_buy now usd btc price s) =
     Open_tbl s @ [\<lparr>o_Id = next_rowid (map o_Id (Open_tbl s)), o_BuyDate = now,
                    o_BuyAmountUSD = usd, o_AmountBTC = btc, o_BuyPrice = price\<rparr>]"
  "Close_tbl (record_buy now usd btc price s) = Close_tbl s"
  "KPI_tbl (record_buy now usd btc price s) = KPI_tbl s"
  by (simp_all add: record_buy_def)

text \<open>
  \<open>apply_ledger_op (RecordSell now i sa sp) s\<close> is the store after the call, raised or
  not; the next lemmas relate it to what \<open>record_sell\<close> returns.
\<close>

lemma record_sell_found:
  assumes "select_open i s = Some p" and "sqlite_int i"
  shows "record_sell now i sa sp s = Inr (apply_ledger_op (RecordSell now i sa sp) s)"
    and "Open_tbl (apply_ledger_op (RecordSell now i sa sp) s)
         = filter (\<lambda>r. o_Id r \<noteq> i) (Open_tbl s)"
    and "Close_tbl (apply_ledger_op (RecordSell now i sa sp) s) = Close_tbl s @
           [\<lparr>c_Id = next_rowid (map c_Id (Close_tbl s)), c_BuyDate = o_BuyDate p,
             c_SellDate = now, c_BuyAmountUSD = o_BuyAmountUSD p, c_SellAmountUSD = sa,
             c_AmountBTC = o_AmountBTC p, c_BuyPrice = o_BuyPrice p, c_SellPrice = sp,
             c_Profit = sa - o_BuyAmountUSD p\<rparr>]"
    and "KPI_tbl (apply_ledger_op (RecordSell now i sa sp) s) = KPI_tbl s"
  using assms by (simp_all add: record_sell_def Let_def)

lemma record_sell_not_found:
  "select_open i s = None \<Longrightarrow> sqlite_int i \<Longrightarrow> record_sell now i sa sp s = Inr s"
  "select_open i s = None \<Longrightarrow> apply_ledger_op (RecordSell now i sa sp) s = s"
  by (simp_all add: record_sell_def)

lemma record_sell_overflow:
  "\<not> sqlite_int i \<Longrightarrow> record_sell now i sa sp s = Inl OverflowError"
  "\<not> sqlite_int i \<Longrightarrow> apply_ledger_op (RecordSell now i sa sp) s = s"
  by (simp_all add: record_sell_def)

lemma filter_id_distinct:
  "distinct (map o_Id xs) \<Longrightarrow> p \<in> set xs \<Longrightarrow> filter (\<lambda>r. o_Id r \<noteq> o_Id p) xs = remove1 p xs"
proof (induction xs)
  case Nil then show ?case by simp
next
  case (Cons x xs)
  show ?case
  proof (cases "x = p")
    case True
    with Cons.prems have "o_Id p \<notin> o_Id ` set xs" by simp
    then have "\<forall>r\<in>set xs. o_Id r \<noteq> o_Id p" by (metis imageI)
    then have "filter (\<lambda>r. o_Id r \<noteq> o_Id p) xs = xs" by (simp add: filter_id_conv)
    with True show ?thesis by simp
  next
    case False
    with Cons.prems have "p \<in> set xs" "o_Id x \<noteq> o_Id p" by auto
    with Cons show ?thesis using False by simp
  qed
qed

lemma ledger_inv_empty: "ledger_inv empty_store"
  by (simp add: ledger_inv_def empty_store_def)

lemma ledger_inv_record_buy: "ledger_inv s \<Longrightarrow> ledger_inv (record_buy now usd btc price s)"
  using next_rowid_fresh [of "map o_Id (Open_tbl s)"]
  by (simp add: ledger_inv_def record_buy_tables)

lemma ledger_inv_record_sell:
  assumes "ledger_inv s" shows "ledger_inv (apply_ledger_op (RecordSell now i sa sp) s)"
proof (cases "sqlite_int i")
  case False then show ?thesis using assms
    by (simp add: record_sell_overflow(2) del: apply_ledger_op.simps)
next
  case r: True
  show ?thesis
  proof (cases "select_open i s")
    case None then show ?thesis using assms
      by (simp add: record_sell_not_found(2) del: apply_ledger_op.simps)
  next
    case (Some p)
    have "[1..int (length (Close_tbl s))] @ [next_rowid [1..int (length (Close_tbl s))]]
          = [1..int (length (Close_tbl s)) + 1]"
      by (simp add: next_rowid_upto upto_rec2)
    then show ?thesis using assms
      by (simp add: ledger_inv_def record_sell_found(2,3) [OF Some r] distinct_map_filter
            add.commute del: apply_ledger_op.simps)
  qed
qed

lemma ledger_inv_run: "ledger_inv s \<Longrightarrow> ledger_inv (run_ledger ops s)"
  unfolding run_ledger_def
proof (induction ops arbitrary: s)
  case Nil then show ?case by simp
next
  case (Cons a ops)
  show ?case
  proof (cases a)
    case (RecordBuy now usd btc price)
    with Cons.IH [OF ledger_inv_record_buy [OF Cons.prems, of now usd btc price]]
    show ?thesis by simp
  next
    case (RecordSell now i usd price)
    with Cons.IH [OF ledger_inv_record_sell [OF Cons.prems, of now i usd price]]
    show ?thesis by (simp del: apply_ledger_op.simps(2))
  qed
qed

lemma record_sell_remove1:
  assumes "distinct (map o_Id (Open_tbl s))" "select_open i s = Some p" "sqlite_int i"
  shows "Open_tbl (apply_ledger_op (RecordSell now i sa sp) s) = remove1 p (Open_tbl s)"
  using assms(1) select_open_SomeD [OF assms(2)] filter_id_distinct [of "Open_tbl s" p]
  by (simp add: record_sell_found(2) [OF assms(2,3)] del: apply_ledger_op.simps)

lemma record_sell_size:
  assumes "ledger_inv s"
  shows "length (Open_tbl (apply_ledger_op (RecordSell now i sa sp) s))
           + length (Close_tbl (apply_ledger_op (RecordSell now i sa sp) s))
         = length (Open_tbl s) + length (Close_tbl s)"
proof (cases "sqlite_int i")
  case False then show ?thesis
    by (simp add: record_sell_overflow(2) del: apply_ledger_op.simps)
next
  case r: True
  show ?thesis
  proof (cases "select_open i s")
    case None then show ?thesis
      by (simp add: record_sell_not_found(2) del: apply_ledger_op.simps)
  next
    case (Some p)
    from assms have d: "distinct (map o_Id (Open_tbl s))" by (simp add: ledger_inv_def)
    from select_open_SomeD [OF Some] have m: "p \<in> set (Open_tbl s)" by simp
    then have "length (Open_tbl s) > 0" by (cases "Open_tbl s") auto
    moreover have "length (remove1 p (Open_tbl s)) = length (Open_tbl s) - 1"
      using m by (simp add: length_remove1)
    ultimately show ?thesis
      by (simp add: record_sell_remove1 [OF d Some r] record_sell_found(3) [OF Some r]
            del: apply_ledger_op.simps)
  qed
qed

lemma run_ledger_size:
  "ledger_inv s \<Longrightarrow>
   length (Open_tbl (run_ledger ops s)) + length (Close_tbl (run_ledger ops s))
     = length (Open_tbl s) + length (Close_tbl s) + length (filter is_record_buy ops)"
  unfolding run_ledger_def
proof (induction ops arbitrary: s)
  case Nil then show ?case by simp
next
  case (Cons a ops)
  show ?case
  proof (cases a)
    case (RecordBuy now usd btc price)
    with Cons.IH [OF ledger_inv_record_buy [OF Cons.prems, of now usd btc price]]
    show ?thesis by (simp add: record_buy_tables)
  next
    case (RecordSell now i usd price)
    with Cons.IH [OF ledger_inv_record_sell [OF Cons.prems, of now i usd price]]
      record_sell_size [OF Cons.prems, of now i usd price]
    show ?thesis by (simp del: apply_ledger_op.simps(2))
  qed
qed



text \<open>
  C3, as stated, fails: the \<open>Close\<close> table numbers its own rows and does not store
  the id of the position it consumed. After two buys and a sell of position 2, the one
  closed trade has id 1, position 1 is still open, and no closed trade has id 2. Nor does
  a closed position's id stay out of \<open>Open\<close>: after a buy, a sell of position 1 and
  another buy, the new position has id 1 again.
\<close>

theorem closed_id_still_open_counterexample:
  "1 \<in> c_Id ` set (Close_tbl (run_ledger [RecordBuy ''t0'' 100 1 100, RecordBuy ''t1'' 100 2 50,
                 RecordSell ''t2'' 2 104 52] empty_store))
   \<and> 1 \<in> o_Id ` set (Open_tbl (run_ledger [RecordBuy ''t0'' 100 1 100, RecordBuy ''t1'' 100 2 50,
                 RecordSell ''t2'' 2 104 52] empty_store))
   \<and> 2 \<notin> c_Id ` set (Close_tbl (run_ledger [RecordBuy ''t0'' 100 1 100, RecordBuy ''t1'' 100 2 50,
                 RecordSell ''t2'' 2 104 52] empty_store))
   \<and> map c_BuyDate (Close_tbl (run_ledger [RecordBuy ''t0'' 100 1 100, RecordSell ''t1'' 1 103 103,
                 RecordBuy ''t2'' 100 2 50] empty_store)) = [''t0'']
   \<and> map o_Id (Open_tbl (run_ledger [RecordBuy ''t0'' 100 1 100, RecordSell ''t1'' 1 103 103,
                 RecordBuy ''t2'' 100 2 50] empty_store)) = [1]"
  by (simp add: run_ledger_def record_buy_def record_sell_def select_open_def next_rowid_def
        empty_store_def sqlite_int_def)

text \<open>
  C3, amended. In every ledger reached from the empty one by buys and sells, open ids
  are pairwise distinct, the closed trades are numbered 1, 2, ... by the \<open>Close\<close>
  table itself, and open positions plus closed trades are as many as the buys. A
  \<open>record_sell\<close> on an id that is not open returns the ledger unchanged; on an id that
  is open it removes exactly that position, after which the id is not open (until a
  later buy is given it), and appends exactly one closed trade carrying the position's
  buy date, buy amount, base amount and buy price, both in the one transition. This is
  for every id that is an SQLite integer; with any other id \<open>record_sell\<close> raises
  \<open>OverflowError\<close> and writes nothing.
\<close>

theorem ledger_close_step:
  "(let s = run_ledger ops empty_store in
      distinct (map o_Id (Open_tbl s))
    \<and> map c_Id (Close_tbl s) = [1..int (length (Close_tbl s))]
    \<and> length (Open_tbl s) + length (Close_tbl s) = length (filter is_record_buy ops)
    \<and> (\<forall>now i sa sp.
         if \<not> sqlite_int i then record_sell now i sa sp s = Inl OverflowError
         else (case select_open i s of
            None \<Rightarrow> record_sell now i sa sp s = Inr s
          | Some p \<Rightarrow>
              (\<exists>s'. record_sell now i sa sp s = Inr s'
                \<and> p \<in> set (Open_tbl s) \<and> o_Id p = i
                \<and> Open_tbl s' = remove1 p (Open_tbl s)
                \<and> i \<notin> o_Id ` set (Open_tbl s')
                \<and> Close_tbl s' = Close_tbl s @
                     [\<lparr>c_Id = int (length (Close_tbl s)) + 1, c_BuyDate = o_BuyDate p,
                       c_SellDate = now, c_BuyAmountUSD = o_BuyAmountUSD p,
                       c_SellAmountUSD = sa, c_AmountBTC = o_AmountBTC p,
                       c_BuyPrice = o_BuyPrice p, c_SellPrice = sp,
                       c_Profit = sa - o_BuyAmountUSD p\<rparr>]
                \<and> KPI_tbl s' = KPI_tbl s))))"
proof -
  define s where "s = run_ledger ops empty_store"
  have inv: "ledger_inv s"
    unfolding s_def by (rule ledger_inv_run [OF ledger_inv_empty])
  then have d: "distinct (map o_Id (Open_tbl s))"
    and c: "map c_Id (Close_tbl s) = [1..int (length (Close_tbl s))]"
    by (simp_all add: ledger_inv_def)
  have n: "length (Open_tbl s) + length (Close_tbl s) = length (filter is_record_buy ops)"
    unfolding s_def using run_ledger_size [OF ledger_inv_empty, of ops]
    by (simp add: empty_store_def)
  have step: "if \<not> sqlite_int i then record_sell now i sa sp s = Inl OverflowError
         else (case select_open i s of
            None \<Rightarrow> record_sell now i sa sp s = Inr s
          | Some p \<Rightarrow>
              (\<exists>s'. record_sell now i sa sp s = Inr s'
                \<and> p \<in> set (Open_tbl s) \<and> o_Id p = i
                \<and> Open_tbl s' = remove1 p (Open_tbl s)
                \<and> i \<notin> o_Id ` set (Open_tbl s')
                \<and> Close_tbl s' = Close_tbl s @
                     [\<lparr>c_Id = int (length (Close_tbl s)) + 1, c_BuyDate = o_BuyDate p,
                       c_SellDate = now, c_BuyAmountUSD = o_BuyAmountUSD p,
                       c_SellAmountUSD = sa, c_AmountBTC = o_AmountBTC p,
                       c_BuyPrice = o_BuyPrice p, c_SellPrice = sp,
                       c_Profit = sa - o_BuyAmountUSD p\<rparr>]
                \<and> KPI_tbl s' = KPI_tbl s))" for now i sa sp
  proof (cases "sqlite_int i")
    case False then show ?thesis by (simp add: record_sell_overflow(1))
  next
    case r: True
    show ?thesis
    proof (cases "select_open i s")
      case None then show ?thesis using r by (simp add: record_sell_not_found(1))
    next
      case (Some p)
      define s' where "s' = apply_ledger_op (RecordSell now i sa sp) s"
      have ret: "record_sell now i sa sp s = Inr s'"
        unfolding s'_def by (rule record_sell_found(1) [OF Some r])
      have id: "next_rowid (map c_Id (Close_tbl s)) = int (length (Close_tbl s)) + 1"
        by (simp add: c next_rowid_upto)
      have gone: "i \<notin> o_Id ` set (Open_tbl s')"
        unfolding s'_def record_sell_found(2) [OF Some r] by auto
      have rm: "Open_tbl s' = remove1 p (Open_tbl s)"
        unfolding s'_def by (rule record_sell_remove1 [OF d Some r])
      have cl: "Close_tbl s' = Close_tbl s @
                     [\<lparr>c_Id = int (length (Close_tbl s)) + 1, c_BuyDate = o_BuyDate p,
                       c_SellDate = now, c_BuyAmountUSD = o_BuyAmountUSD p,
                       c_SellAmountUSD = sa, c_AmountBTC = o_AmountBTC p,
                       c_BuyPrice = o_BuyPrice p, c_SellPrice = sp,
                       c_Profit = sa - o_BuyAmountUSD p\<rparr>]"
        unfolding s'_def record_sell_found(3) [OF Some r] id ..
      have k: "KPI_tbl s' = KPI_tbl s"
        unfolding s'_def by (rule record_sell_found(4) [OF Some r])
      from select_open_SomeD [OF Some] ret gone rm cl k
      have "\<exists>s'. record_sell now i sa sp s = Inr s'
                \<and> p \<in> set (Open_tbl s) \<and> o_Id p = i
                \<and> Open_tbl s' = remove1 p (Open_tbl s)
                \<and> i \<notin> o_Id ` set (Open_tbl s')
                \<and> Close_tbl s' = Close_tbl s @
                     [\<lparr>c_Id = int (length (Close_tbl s)) + 1, c_BuyDate = o_BuyDate p,
                       c_SellDate = now, c_BuyAmountUSD = o_BuyAmountUSD p,
                       c_SellAmountUSD = sa, c_AmountBTC = o_AmountBTC p,
                       c_BuyPrice = o_BuyPrice p, c_SellPrice = sp,
                       c_Profit = sa - o_BuyAmountUSD p\<rparr>]
                \<and> KPI_tbl s' = KPI_tbl s"
        by (intro exI [of _ s']) blast
      then show ?thesis using r Some by simp
    qed
  qed
  show ?thesis
    unfolding Let_def s_def [symmetric] using d c n step by blast
qed

theorem ledger_close_step_witness:
  "select_open 1 (run_ledger [RecordBuy ''t0'' 100 1 100, RecordBuy ''t1'' 100 2 50,
                 RecordSell ''t2'' 2 104 52] empty_store)
     = Some \<lparr>o_Id = 1, o_BuyDate = ''t0'', o_BuyAmountUSD = 100, o_AmountBTC = 1, o_BuyPrice = 100\<rparr>
   \<and> sqlite_int 1
   \<and> (\<exists>s'. record_sell ''t3'' 1 103 103
        (run_ledger [RecordBuy ''t0'' 100 1 100, RecordBuy ''t1'' 100 2 50,
                 RecordSell ''t2'' 2 104 52] empty_store) = Inr s'
       \<and> Open_tbl s' = []
       \<and> map c_Id (Close_tbl s') = [1, 2])"
proof -
  define s where "s = run_ledger [RecordBuy ''t0'' 100 1 100, RecordBuy ''t1'' 100 2 50,
                 RecordSell ''t2'' 2 104 52] empty_store"
  have ev: "s = \<lparr>Open_tbl = [\<lparr>o_Id = 1, o_BuyDate = ''t0'', o_BuyAmountUSD = 100, o_AmountBTC = 1, o_BuyPrice = 100\<rparr>],
      Close_tbl = [\<lparr>c_Id = 1, c_BuyDate = ''t1'', c_SellDate = ''t2'', c_BuyAmountUSD = 100,
                    c_SellAmountUSD = 104, c_AmountBTC = 2, c_BuyPrice = 50, c_SellPrice = 52,
                    c_Profit = 4\<rparr>], KPI_tbl = []\<rparr>"
    unfolding s_def
    by (simp add: run_ledger_def record_buy_def record_sell_def select_open_def next_rowid_def
          empty_store_def sqlite_int_def)
  have h: "select_open 1 s
     = Some \<lparr>o_Id = 1, o_BuyDate = ''t0'', o_BuyAmountUSD = 100, o_AmountBTC = 1, o_BuyPrice = 100\<rparr>"
    by (simp add: ev select_open_def)
  have r: "sqlite_int 1" by (simp add: sqlite_int_def)
  have o: "Open_tbl s = [\<lparr>o_Id = 1, o_BuyDate = ''t0'', o_BuyAmountUSD = 100, o_AmountBTC = 1, o_BuyPrice = 100\<rparr>]"
    and c: "map c_Id (Close_tbl s) = [1]" and l: "length (Close_tbl s) = 1" by (simp_all add: ev)
  from ledger_close_step [of "[RecordBuy ''t0'' 100 1 100, RecordBuy ''t1'' 100 2 50,
                 RecordSell ''t2'' 2 104 52]"]
  have "if \<not> sqlite_int 1 then record_sell ''t3'' 1 103 103 s = Inl OverflowError
         else (case select_open 1 s of
            None \<Rightarrow> record_sell ''t3'' 1 103 103 s = Inr s
          | Some p \<Rightarrow>
              (\<exists>s'. record_sell ''t3'' 1 103 103 s = Inr s'
                \<and> p \<in> set (Open_tbl s) \<and> o_Id p = 1
                \<and> Open_tbl s' = remove1 p (Open_tbl s)
                \<and> 1 \<notin> o_Id ` set (Open_tbl s')
                \<and> Close_tbl s' = Close_tbl s @
                     [\<lparr>c_Id = int (length (Close_tbl s)) + 1, c_BuyDate = o_BuyDate p,
                       c_SellDate = ''t3'', c_BuyAmountUSD = o_BuyAmountUSD p,
                       c_SellAmountUSD = 103, c_AmountBTC = o_AmountBTC p,
                       c_BuyPrice = o_BuyPrice p, c_SellPrice = 103,
                       c_Profit = 103 - o_BuyAmountUSD p\<rparr>]
                \<and> KPI_tbl s' = KPI_tbl s))"
    unfolding Let_def s_def [symmetric] by blast
  then obtain s' where ret: "record_sell ''t3'' 1 103 103 s = Inr s'"
    and rm: "Open_tbl s' = remove1 \<lparr>o_Id = 1, o_BuyDate = ''t0'', o_BuyAmountUSD = 100,
                                     o_AmountBTC = 1, o_BuyPrice = 100\<rparr> (Open_tbl s)"
    and cl: "Close_tbl s' = Close_tbl s @
                     [\<lparr>c_Id = int (length (Close_tbl s)) + 1, c_BuyDate = ''t0'',
                       c_SellDate = ''t3'', c_BuyAmountUSD = 100,
                       c_SellAmountUSD = 103, c_AmountBTC = 1,
                       c_BuyPrice = 100, c_SellPrice = 103,
                       c_Profit = 103 - 100\<rparr>]"
    unfolding h by (auto simp: r)
  have "Open_tbl s' = []" unfolding rm o by simp
  moreover have "map c_Id (Close_tbl s') = [1, 2]" unfolding cl by (simp add: c l)
  ultimately have "\<exists>s'. record_sell ''t3'' 1 103 103 s = Inr s'
       \<and> Open_tbl s' = [] \<and> map c_Id (Close_tbl s') = [1, 2]"
    using ret by (intro exI [of _ s'] conjI)
  with h r show ?thesis unfolding s_def by (intro conjI)
qed

section \<open>Properties of the bots\<close>

text \<open>
  What \<open>execute_order\<close> does with a sell given in the base asset: without the lot
  size nothing is placed; otherwise a market sell of the amount rounded down to the lot
  step is placed, and its answer decides between an order and \<open>None\<close>.
\<close>

lemma execute_order_sell:
  "execute_order ex symbol amount False False =
     (case get_symbol_info ex symbol of
        ApiFails \<Rightarrow> (Inr None, [])
      | Returns d \<Rightarrow>
          (case order_market_sell ex symbol (round_down amount d) of
             ApiFails \<Rightarrow> (Inr None, [(False, round_down amount d)])
           | Returns order \<Rightarrow> (Inr (Some order), [(False, round_down amount d)])))"
  by (simp add: execute_order_def execute_order_try_def bind_r_def client_call_def Let_def
           split: outcome.splits)

lemma execute_order_sell_cases:
  "(\<exists>order. fst (execute_order ex symbol amount False False) = Inr (Some order))
   \<or> fst (execute_order ex symbol amount False False) = Inr None"
  by (simp add: execute_order_sell split: outcome.splits)




lemma find_by_id:
  "distinct (map o_Id xs) \<Longrightarrow> p \<in> set xs \<Longrightarrow> find (\<lambda>r. o_Id r = o_Id p) xs = Some p"
proof (induction xs)
  case Nil then show ?case by simp
next
  case (Cons x xs)
  show ?case
  proof (cases "x = p")
    case True then show ?thesis by simp
  next
    case False
    with Cons.prems have "p \<in> set xs" by simp
    then have "o_Id p \<in> o_Id ` set xs" by (rule imageI)
    with Cons.prems have "o_Id x \<noteq> o_Id p" by auto
    with Cons \<open>p \<in> set xs\<close> show ?thesis by simp
  qed
qed

lemma record_sell_middle:
  assumes o: "Open_tbl s = pre @ p # ps" and d: "distinct (map o_Id (pre @ p # ps))"
    and r: "sqlite_int (o_Id p)"
  shows "\<exists>s'. record_sell now (o_Id p) sa sp s = Inr s'
      \<and> Open_tbl s' = pre @ ps
      \<and> map trade_of (Close_tbl s') = map trade_of (Close_tbl s) @
             [(o_BuyDate p, now, o_BuyAmountUSD p, sa, o_AmountBTC p, o_BuyPrice p, sp,
               sa - o_BuyAmountUSD p)]
      \<and> KPI_tbl s' = KPI_tbl s"
proof -
  define s' where "s' = apply_ledger_op (RecordSell now (o_Id p) sa sp) s"
  have mem: "p \<in> set (Open_tbl s)" by (simp add: o)
  have d': "distinct (map o_Id (Open_tbl s))" using d by (simp only: o)
  have sel: "select_open (o_Id p) s = Some p"
    unfolding select_open_def by (rule find_by_id [OF d' mem])
  from d have "o_Id p \<notin> o_Id ` set pre" by auto
  then have np: "p \<notin> set pre" by auto
  have "Open_tbl s' = remove1 p (Open_tbl s)"
    unfolding s'_def by (rule record_sell_remove1 [OF d' sel r])
  also have "\<dots> = pre @ ps" using np by (simp add: o remove1_append)
  finally have op: "Open_tbl s' = pre @ ps" .
  have cl: "map trade_of (Close_tbl s') = map trade_of (Close_tbl s) @
             [(o_BuyDate p, now, o_BuyAmountUSD p, sa, o_AmountBTC p, o_BuyPrice p, sp,
               sa - o_BuyAmountUSD p)]"
    unfolding s'_def record_sell_found(3) [OF sel r] by (simp add: trade_of_def)
  have k: "KPI_tbl s' = KPI_tbl s"
    unfolding s'_def by (rule record_sell_found(4) [OF sel r])
  have "record_sell now (o_Id p) sa sp s = Inr s'"
    unfolding s'_def by (rule record_sell_found(1) [OF sel r])
  with op cl k show ?thesis by (intro exI [of _ s'] conjI)
qed

lemma close_loop_result:
  assumes "Open_tbl (db w) = pre @ ps" and "distinct (map o_Id (pre @ ps))"
    and "sqlite_rows ps"
  shows "\<exists>w'. close_loop ex now symbol pc ps w = (Inr (), w')
      \<and> calls w' = calls w @ map (\<lambda>p. (o_AmountBTC p, False, False)) (filter (sell_due pc) ps)
      \<and> orders w' = orders w @
           concat (map (\<lambda>p. snd (execute_order ex symbol (o_AmountBTC p) False False))
                     (filter (sell_due pc) ps))
      \<and> Open_tbl (db w') = pre @ filter (\<lambda>p. \<not> sold ex symbol pc p) ps
      \<and> map trade_of (Close_tbl (db w')) = map trade_of (Close_tbl (db w))
            @ map (expected_close now pc) (filter (sold ex symbol pc) ps)
      \<and> KPI_tbl (db w') = KPI_tbl (db w)"
  using assms
proof (induction ps arbitrary: w pre)
  case Nil
  then show ?case by simp
next
  case (Cons p ps)
  from Cons.prems(3) have rp: "sqlite_int (o_Id p)" and rps: "sqlite_rows ps"
    by (simp_all add: sqlite_rows_def)
  show ?case
  proof (cases "sell_due pc p")
    case False
    have "Open_tbl (db w) = (pre @ [p]) @ ps" "distinct (map o_Id ((pre @ [p]) @ ps))"
      using Cons.prems by simp_all
    from Cons.IH [OF this rps] False show ?thesis
      by (simp add: sell_due_def sold_def)
  next
    case due: True
    obtain res placed where ex: "execute_order ex symbol (o_AmountBTC p) False False = (res, placed)"
      by (cases "execute_order ex symbol (o_AmountBTC p) False False")
    define w1 where "w1 = w\<lparr>calls := calls w @ [(o_AmountBTC p, False, False)],
                            orders := orders w @ placed\<rparr>"
    from execute_order_sell_cases [of ex symbol "o_AmountBTC p"]
    show ?thesis
    proof
      assume "\<exists>order. fst (execute_order ex symbol (o_AmountBTC p) False False) = Inr (Some order)"
      then obtain order where ord: "res = Inr (Some order)" by (auto simp: ex)
      then have sd: "sold ex symbol pc p" using due by (simp add: sold_def sell_filled_def ex)
      have o1: "Open_tbl (db w1) = pre @ p # ps" using Cons.prems by (simp add: w1_def)
      from record_sell_middle [OF o1 Cons.prems(2) rp, of now "o_AmountBTC p * pc" pc]
      obtain s' where rs: "record_sell now (o_Id p) (o_AmountBTC p * pc) pc (db w1) = Inr s'"
        and rso: "Open_tbl s' = pre @ ps"
        and rsc: "map trade_of (Close_tbl s') = map trade_of (Close_tbl (db w1)) @
             [(o_BuyDate p, now, o_BuyAmountUSD p, o_AmountBTC p * pc, o_AmountBTC p,
               o_BuyPrice p, pc, o_AmountBTC p * pc - o_BuyAmountUSD p)]"
        and rsk: "KPI_tbl s' = KPI_tbl (db w1)" by blast
      define w2 where "w2 = w1\<lparr>db := s'\<rparr>"
      have "Open_tbl (db w2) = pre @ ps" "distinct (map o_Id (pre @ ps))"
        using rso Cons.prems(2) by (simp_all add: w2_def)
      from Cons.IH [OF this rps] obtain w' where
        r: "close_loop ex now symbol pc ps w2 = (Inr (), w')"
        and c: "calls w' = calls w2 @ map (\<lambda>p. (o_AmountBTC p, False, False)) (filter (sell_due pc) ps)"
        and od: "orders w' = orders w2 @
           concat (map (\<lambda>p. snd (execute_order ex symbol (o_AmountBTC p) False False))
                     (filter (sell_due pc) ps))"
        and op: "Open_tbl (db w') = pre @ filter (\<lambda>p. \<not> sold ex symbol pc p) ps"
        and cl: "map trade_of (Close_tbl (db w')) = map trade_of (Close_tbl (db w2))
            @ map (expected_close now pc) (filter (sold ex symbol pc) ps)"
        and k: "KPI_tbl (db w') = KPI_tbl (db w2)" by blast
      have "close_loop ex now symbol pc (p # ps) w = (Inr (), w')"
        using due ord r rs by (simp add: sell_due_def Let_def ex w1_def w2_def)
      moreover have "calls w2 = calls w @ [(o_AmountBTC p, False, False)]"
        by (simp add: w2_def w1_def)
      moreover have "orders w2 = orders w @ placed"
        by (simp add: w2_def w1_def)
      moreover have "map trade_of (Close_tbl (db w2))
           = map trade_of (Close_tbl (db w)) @ [expected_close now pc p]"
        using rsc by (simp add: w2_def w1_def expected_close_def)
      moreover have "KPI_tbl (db w2) = KPI_tbl (db w)"
        using rsk by (simp add: w2_def w1_def)
      ultimately show ?thesis using c od op cl k sd due by (simp add: ex)
    next
      assume "fst (execute_order ex symbol (o_AmountBTC p) False False) = Inr None"
      then have ord: "res = Inr None" by (simp add: ex)
      then have sd: "\<not> sold ex symbol pc p" by (simp add: sold_def sell_filled_def ex)
      have "Open_tbl (db w1) = (pre @ [p]) @ ps" "distinct (map o_Id ((pre @ [p]) @ ps))"
        using Cons.prems by (simp_all add: w1_def)
      from Cons.IH [OF this rps] obtain w' where
        r: "close_loop ex now symbol pc ps w1 = (Inr (), w')"
        and c: "calls w' = calls w1 @ map (\<lambda>p. (o_AmountBTC p, False, False)) (filter (sell_due pc) ps)"
        and od: "orders w' = orders w1 @
           concat (map (\<lambda>p. snd (execute_order ex symbol (o_AmountBTC p) False False))
                     (filter (sell_due pc) ps))"
        and op: "Open_tbl (db w') = (pre @ [p]) @ filter (\<lambda>p. \<not> sold ex symbol pc p) ps"
        and cl: "map trade_of (Close_tbl (db w')) = map trade_of (Close_tbl (db w1))
            @ map (expected_close now pc) (filter (sold ex symbol pc) ps)"
        and k: "KPI_tbl (db w') = KPI_tbl (db w1)" by blast
      have "close_loop ex now symbol pc (p # ps) w = (Inr (), w')"
        using due ord r by (simp add: sell_due_def Let_def ex w1_def)
      then show ?thesis using c od op cl k sd due by (simp add: w1_def ex)
    qed
  qed
qed

lemma klines_example: "get_historical_klines example_exchange symbol = Returns [110, 100]"
  by (simp add: example_exchange_def)

lemma balances_example: "get_account_balances example_exchange ''USD'' = Some (1000, 1000)"
  by (simp add: get_account_balances_def example_exchange_def)

lemma execute_buy_example:
  "execute_order example_exchange ''BTCUSDT'' 100 True True
   = (Inr (Some \<lparr>fills = [\<lparr>f_price = 100, f_qty = 0.4\<rparr>, \<lparr>f_price = 101, f_qty = 0.6\<rparr>]\<rparr>),
      [(True, 1)])"
  by (simp add: execute_order_def execute_order_try_def bind_r_def client_call_def
        example_exchange_def round_down_def)

lemma execute_sell_example:
  "execute_order example_exchange symbol quantity False False
   = (if round_down quantity 5 = 2 then Inr None
      else Inr (Some \<lparr>fills = [\<lparr>f_price = 100, f_qty = round_down quantity 5\<rparr>]\<rparr>),
      [(False, round_down quantity 5)])"
  by (simp add: execute_order_sell example_exchange_def)

lemma round_down_int: "round_down (of_int n) d = of_int n"
proof -
  have "(of_int n :: real) * 10 ^ d = of_int (n * 10 ^ d)" by simp
  then have "\<lfloor>(of_int n :: real) * 10 ^ d\<rfloor> = n * 10 ^ d" by (simp only: floor_of_int)
  then show ?thesis by (simp add: round_down_def)
qed

lemma round_down_numeral [simp]: "round_down (numeral k) d = numeral k" "round_down 1 d = 1"
  using round_down_int [of "numeral k" d] round_down_int [of 1 d] by simp_all

text \<open>
  C1. With no open position, \<open>_get_minimum_buy_price\<close> returns \<open>None\<close>; once today's
  close times 1.01 is below yesterday's close, the second conjunct of the buy condition
  compares a float with \<open>None\<close>, so \<open>compare_and_buy\<close> raises \<open>TypeError\<close>
  instead of buying: no order is sent and nothing is recorded, whatever the balance.
\<close>

theorem compare_and_buy_first_buy_raises:
  assumes "Open_tbl (db w) = []"
    and "get_historical_klines ex symbol = Returns (price_yesterday # price_today # rest)"
    and "price_today * 1.01 < price_yesterday"
  shows "compare_and_buy ex invest_amount_usd now symbol w = (Inl TypeError, w)"
  using assms
  by (simp add: compare_and_buy_def get_open_positions_def get_minimum_buy_price_def)

theorem compare_and_buy_first_buy_raises_witness:
  "Open_tbl (db empty_world) = []
   \<and> get_historical_klines example_exchange ''BTCUSDT'' = Returns [110, 100]
   \<and> (100::real) * 1.01 < 110
   \<and> compare_and_buy example_exchange 100 ''t1'' ''BTCUSDT'' empty_world
       = (Inl TypeError, empty_world)"
proof -
  have h1: "Open_tbl (db empty_world) = []" by (simp add: empty_world_def empty_store_def)
  have h2: "get_historical_klines example_exchange ''BTCUSDT'' = Returns [110, 100]"
    by (simp add: example_exchange_def)
  have h3: "(100::real) * 1.01 < 110" by simp
  from compare_and_buy_first_buy_raises [OF h1 h2 h3] h1 h2 h3
  show ?thesis by blast
qed

text \<open>
  With at least one open position and a \<open>USD\<close> entry among the balances, the buy order
  is sent exactly when today's close times 1.01 is below yesterday's close and below the
  least open buy price, and the invest amount is strictly below the USD balance.
\<close>

lemma compare_and_buy_decision:
  assumes "Open_tbl (db w) \<noteq> []"
    and "get_historical_klines ex symbol = Returns (price_yesterday # price_today # rest)"
    and "get_account_balances ex ''USD'' = Some (balance, usd)"
  shows "calls (snd (compare_and_buy ex invest_amount_usd now symbol w))
         = calls w @
           (if price_today * 1.01 < price_yesterday
               \<and> price_today * 1.01 < min_list (map o_BuyPrice (Open_tbl (db w)))
               \<and> invest_amount_usd < usd
            then [(invest_amount_usd, True, True)] else [])"
  using assms
  by (simp add: compare_and_buy_def get_open_positions_def get_minimum_buy_price_def Let_def
           split: sum.splits option.splits list.splits prod.splits)

text \<open>
  With open positions bought at 100 and 105 and yesterday's close at 110: today's close
  108 sends no order (109.08 is not below 100); today's close 98 sends the buy order when
  the balance is 1000, and sends none when the balance equals the invest amount 100.
\<close>

lemma buy_gate_examples:
  "calls (snd (compare_and_buy (example_exchange\<lparr>get_historical_klines := \<lambda>symbol. Returns [110, 108]\<rparr>)
                 100 ''t1'' ''BTCUSDT'' (world_with [position 1 1 100, position 2 1 105]))) = []"
  "calls (snd (compare_and_buy (example_exchange\<lparr>get_historical_klines := \<lambda>symbol. Returns [110, 98]\<rparr>)
                 100 ''t1'' ''BTCUSDT'' (world_with [position 1 1 100, position 2 1 105])))
   = [(100, True, True)]"
  "calls (snd (compare_and_buy (example_exchange\<lparr>get_historical_klines := \<lambda>symbol. Returns [110, 98],
                                                 get_account := Returns [(''USDT'', 100)]\<rparr>)
                 100 ''t1'' ''BTCUSDT'' (world_with [position 1 1 100, position 2 1 105]))) = []"
proof -
  have o: "Open_tbl (db (world_with [position 1 1 100, position 2 1 105])) \<noteq> []"
    and m: "min_list (map o_BuyPrice (Open_tbl (db (world_with [position 1 1 100, position 2 1 105]))))
            = 100"
    and l: "calls (world_with [position 1 1 100, position 2 1 105]) = []"
    by (simp_all add: world_with_def position_def)
  have b: "get_account_balances (example_exchange\<lparr>get_historical_klines := k\<rparr>) ''USD''
           = Some (1000, 1000)" for k
    by (simp add: get_account_balances_def example_exchange_def)
  have b': "get_account_balances (example_exchange\<lparr>get_historical_klines := k,
              get_account := Returns [(''USDT'', 100)]\<rparr>) ''USD'' = Some (100, 100)" for k
    by (simp add: get_account_balances_def example_exchange_def)
  show "calls (snd (compare_and_buy (example_exchange\<lparr>get_historical_klines := \<lambda>symbol. Returns [110, 108]\<rparr>)
                 100 ''t1'' ''BTCUSDT'' (world_with [position 1 1 100, position 2 1 105]))) = []"
    by (subst compare_and_buy_decision [OF o _ b, where rest = "[]"], simp) (simp add: m l)
  show "calls (snd (compare_and_buy (example_exchange\<lparr>get_historical_klines := \<lambda>symbol. Returns [110, 98]\<rparr>)
                 100 ''t1'' ''BTCUSDT'' (world_with [position 1 1 100, position 2 1 105])))
   = [(100, True, True)]"
    by (subst compare_and_buy_decision [OF o _ b, where rest = "[]"], simp) (simp add: m l)
  show "calls (snd (compare_and_buy (example_exchange\<lparr>get_historical_klines := \<lambda>symbol. Returns [110, 98],
                                                 get_account := Returns [(''USDT'', 100)]\<rparr>)
                 100 ''t1'' ''BTCUSDT'' (world_with [position 1 1 100, position 2 1 105]))) = []"
    by (subst compare_and_buy_decision [OF o _ b', where rest = "[]"], simp) (simp add: m l)
qed

text \<open>
  C9. A buy filled in two parts, 0.4 at 100 and 0.6 at 101, is recorded with the
  quantity and the price of the first part only: the open position holds 0.4, while
  the order bought 1 in total.
\<close>

theorem compare_and_buy_records_first_fill:
  "Open_tbl (db (snd (compare_and_buy example_exchange 100 ''t1'' ''BTCUSDT''
                        (world_with [position 1 1 200]))))
   = [position 1 1 200,
      \<lparr>o_Id = 2, o_BuyDate = ''t1'', o_BuyAmountUSD = 100, o_AmountBTC = 0.4, o_BuyPrice = 100\<rparr>]
   \<and> sum_list (map f_qty [\<lparr>f_price = 100, f_qty = 0.4\<rparr>, \<lparr>f_price = 101, f_qty = 0.6\<rparr>]) = 1"
  by (simp add: compare_and_buy_def get_open_positions_def get_minimum_buy_price_def Let_def
        klines_example balances_example execute_buy_example world_with_def position_def
        record_buy_def next_rowid_def)




lemma compare_and_buy_write_needs_fill:
  "db (snd (compare_and_buy ex invest_amount_usd now symbol w)) \<noteq> db w
   \<Longrightarrow> \<exists>order. fst (execute_order ex symbol invest_amount_usd True True) = Inr (Some order)"
  by (auto simp: compare_and_buy_def Let_def
           split: outcome.splits if_splits option.splits sum.splits list.splits prod.splits)

text \<open>
  C6, as stated, fails for price queries: nothing in \<open>compare_and_buy\<close> or
  \<open>check_and_close_positions\<close> catches a failing \<open>get_historical_klines\<close> or
  \<open>get_symbol_ticker\<close>, so the exception leaves the method.
\<close>

theorem price_query_failure_counterexample:
  "fst (compare_and_buy (example_exchange\<lparr>get_historical_klines := \<lambda>symbol. ApiFails\<rparr>)
          100 ''t1'' ''BTCUSDT'' (world_with [position 1 1 100])) = Inl BinanceAPIException
   \<and> fst (check_and_close_positions (example_exchange\<lparr>get_symbol_ticker := \<lambda>symbol. ApiFails\<rparr>)
          ''t1'' ''BTCUSDT'' (world_with [position 1 1 100])) = Inl BinanceAPIException"
  by (simp add: compare_and_buy_def check_and_close_positions_def)

text \<open>
  C6, amended. A \<open>BinanceAPIException\<close> raised while executing an order is caught in
  \<open>execute_order\<close>, which then returns \<open>None\<close>; \<open>compare_and_buy\<close> changes the
  ledger only when its order was filled; when the ticker answers (and the open ids are
  pairwise distinct SQLite integers, as in every \<open>Open\<close> table), the sell loop returns
  normally, sends the sell request of every due position whichever of them fail, keeps
  every position whose order was not filled, and adds as many closed trades as positions
  were sold. A failing price query (the candles in \<open>compare_and_buy\<close>, the ticker in
  \<open>check_and_close_positions\<close>) is not caught: the exception reaches the caller, with
  the ledger and the logs unchanged.
\<close>

theorem order_failure_is_skipped:
  "(fst (execute_order_try ex symbol amount is_buy is_amount_in_usd) = Inl BinanceAPIException
      \<longrightarrow> fst (execute_order ex symbol amount is_buy is_amount_in_usd) = Inr None)
   \<and> (db (snd (compare_and_buy ex invest_amount_usd now symbol w)) \<noteq> db w
      \<longrightarrow> (\<exists>order. fst (execute_order ex symbol invest_amount_usd True True) = Inr (Some order)))
   \<and> (get_symbol_ticker ex symbol = Returns current_price
        \<and> distinct (map o_Id (Open_tbl (db w))) \<and> sqlite_rows (Open_tbl (db w))
      \<longrightarrow> (\<exists>w'. check_and_close_positions ex now symbol w = (Inr (), w')
             \<and> calls w' = calls w @ map (\<lambda>p. (o_AmountBTC p, False, False))
                                     (filter (sell_due current_price) (Open_tbl (db w)))
             \<and> (\<forall>p\<in>set (Open_tbl (db w)). \<not> sell_filled ex symbol p \<longrightarrow> p \<in> set (Open_tbl (db w')))
             \<and> length (Close_tbl (db w')) = length (Close_tbl (db w))
                 + length (filter (sold ex symbol current_price) (Open_tbl (db w)))))
   \<and> (get_historical_klines ex symbol = ApiFails
      \<longrightarrow> compare_and_buy ex invest_amount_usd now symbol w = (Inl BinanceAPIException, w))
   \<and> (get_symbol_ticker ex symbol = ApiFails
      \<longrightarrow> check_and_close_positions ex now symbol w = (Inl BinanceAPIException, w))"
proof (intro conjI impI)
  assume "fst (execute_order_try ex symbol amount is_buy is_amount_in_usd) = Inl BinanceAPIException"
  then show "fst (execute_order ex symbol amount is_buy is_amount_in_usd) = Inr None"
    by (cases "execute_order_try ex symbol amount is_buy is_amount_in_usd")
       (simp add: execute_order_def)
next
  assume "db (snd (compare_and_buy ex invest_amount_usd now symbol w)) \<noteq> db w"
  then show "\<exists>order. fst (execute_order ex symbol invest_amount_usd True True) = Inr (Some order)"
    by (rule compare_and_buy_write_needs_fill)
next
  assume a: "get_symbol_ticker ex symbol = Returns current_price
        \<and> distinct (map o_Id (Open_tbl (db w))) \<and> sqlite_rows (Open_tbl (db w))"
  then have t: "get_symbol_ticker ex symbol = Returns current_price"
    and d: "distinct (map o_Id ([] @ Open_tbl (db w)))"
    and q: "sqlite_rows (Open_tbl (db w))" by simp_all
  have o: "Open_tbl (db w) = [] @ Open_tbl (db w)" by simp
  from close_loop_result [OF o d q, of ex now symbol current_price] obtain w' where
    r: "close_loop ex now symbol current_price (Open_tbl (db w)) w = (Inr (), w')"
    and cs: "calls w' = calls w @ map (\<lambda>p. (o_AmountBTC p, False, False))
                              (filter (sell_due current_price) (Open_tbl (db w)))"
    and op: "Open_tbl (db w') = [] @ filter (\<lambda>p. \<not> sold ex symbol current_price p) (Open_tbl (db w))"
    and cl: "map trade_of (Close_tbl (db w')) = map trade_of (Close_tbl (db w))
            @ map (expected_close now current_price)
                (filter (sold ex symbol current_price) (Open_tbl (db w)))"
    by blast
  have "check_and_close_positions ex now symbol w = (Inr (), w')"
    using r t by (simp add: check_and_close_positions_def get_open_positions_def)
  moreover have "\<forall>p\<in>set (Open_tbl (db w)). \<not> sell_filled ex symbol p \<longrightarrow> p \<in> set (Open_tbl (db w'))"
    unfolding op by (simp add: sold_def)
  moreover have "length (Close_tbl (db w')) = length (Close_tbl (db w))
                 + length (filter (sold ex symbol current_price) (Open_tbl (db w)))"
    using arg_cong [OF cl, of length] by simp
  ultimately show "\<exists>w'. check_and_close_positions ex now symbol w = (Inr (), w')
             \<and> calls w' = calls w @ map (\<lambda>p. (o_AmountBTC p, False, False))
                                     (filter (sell_due current_price) (Open_tbl (db w)))
             \<and> (\<forall>p\<in>set (Open_tbl (db w)). \<not> sell_filled ex symbol p \<longrightarrow> p \<in> set (Open_tbl (db w')))
             \<and> length (Close_tbl (db w')) = length (Close_tbl (db w))
                 + length (filter (sold ex symbol current_price) (Open_tbl (db w)))"
    using cs by (intro exI [of _ w'] conjI)
next
  assume "get_historical_klines ex symbol = ApiFails"
  then show "compare_and_buy ex invest_amount_usd now symbol w = (Inl BinanceAPIException, w)"
    by (simp add: compare_and_buy_def)
next
  assume "get_symbol_ticker ex symbol = ApiFails"
  then show "check_and_close_positions ex now symbol w = (Inl BinanceAPIException, w)"
    by (simp add: check_and_close_positions_def)
qed

theorem order_failure_is_skipped_witness:
  "fst (execute_order_try example_exchange ''BTCUSDT'' 2 False False) = Inl BinanceAPIException
   \<and> fst (execute_order example_exchange ''BTCUSDT'' 2 False False) = Inr None
   \<and> db (snd (compare_and_buy example_exchange 100 ''t1'' ''BTCUSDT'' (world_with [position 1 1 200])))
       \<noteq> db (world_with [position 1 1 200])
   \<and> (\<exists>order. fst (execute_order example_exchange ''BTCUSDT'' 100 True True) = Inr (Some order))
   \<and> get_symbol_ticker example_exchange ''BTCUSDT'' = Returns 100
   \<and> distinct (map o_Id (Open_tbl (db (world_with [position 1 2 90, position 2 1 90]))))
   \<and> sqlite_rows (Open_tbl (db (world_with [position 1 2 90, position 2 1 90])))
   \<and> (\<exists>w'. check_and_close_positions example_exchange ''t1'' ''BTCUSDT''
               (world_with [position 1 2 90, position 2 1 90]) = (Inr (), w')
          \<and> calls w' = [(2, False, False), (1, False, False)]
          \<and> position 1 2 90 \<in> set (Open_tbl (db w'))
          \<and> length (Close_tbl (db w')) = 1)
   \<and> get_historical_klines (example_exchange\<lparr>get_historical_klines := \<lambda>symbol. ApiFails\<rparr>) ''BTCUSDT''
       = ApiFails
   \<and> compare_and_buy (example_exchange\<lparr>get_historical_klines := \<lambda>symbol. ApiFails\<rparr>)
        100 ''t1'' ''BTCUSDT'' empty_world = (Inl BinanceAPIException, empty_world)
   \<and> get_symbol_ticker (example_exchange\<lparr>get_symbol_ticker := \<lambda>symbol. ApiFails\<rparr>) ''BTCUSDT''
       = ApiFails
   \<and> check_and_close_positions (example_exchange\<lparr>get_symbol_ticker := \<lambda>symbol. ApiFails\<rparr>)
        ''t1'' ''BTCUSDT'' empty_world = (Inl BinanceAPIException, empty_world)"
proof -
  define w where "w = world_with [position 1 2 90, position 2 1 90]"
  have h1: "fst (execute_order_try example_exchange ''BTCUSDT'' 2 False False) = Inl BinanceAPIException"
    by (simp add: execute_order_try_def bind_r_def client_call_def example_exchange_def)
  note c1 = order_failure_is_skipped
    [where ex = example_exchange and symbol = "''BTCUSDT''" and amount = 2 and is_buy = False
       and is_amount_in_usd = False, THEN conjunct1, rule_format, OF h1]
  have h2: "db (snd (compare_and_buy example_exchange 100 ''t1'' ''BTCUSDT'' (world_with [position 1 1 200])))
       \<noteq> db (world_with [position 1 1 200])"
    by (simp add: compare_and_buy_def get_open_positions_def get_minimum_buy_price_def Let_def
        klines_example balances_example execute_buy_example world_with_def position_def
        record_buy_def next_rowid_def)
  note c2 = order_failure_is_skipped
    [where ex = example_exchange and symbol = "''BTCUSDT''" and invest_amount_usd = 100
       and now = "''t1''" and w = "world_with [position 1 1 200]",
     THEN conjunct2, THEN conjunct1, rule_format, OF h2]
  have h3: "get_symbol_ticker example_exchange ''BTCUSDT'' = Returns 100"
    by (simp add: example_exchange_def)
  have o: "Open_tbl (db w) = [position 1 2 90, position 2 1 90]"
    and c: "Close_tbl (db w) = []" and l: "calls w = []"
    by (simp_all add: w_def world_with_def)
  have h4: "distinct (map o_Id (Open_tbl (db w)))" by (simp add: o position_def)
  have h4': "sqlite_rows (Open_tbl (db w))"
    by (simp add: o position_def sqlite_rows_def sqlite_int_def)
  have due: "filter (sell_due 100) (Open_tbl (db w)) = [position 1 2 90, position 2 1 90]"
    by (simp add: o sell_due_def position_def)
  have f: "\<not> sell_filled example_exchange ''BTCUSDT'' (position 1 2 90)"
    "sold example_exchange ''BTCUSDT'' 100 (position 2 1 90)"
    "\<not> sold example_exchange ''BTCUSDT'' 100 (position 1 2 90)"
    by (simp_all add: sold_def sell_due_def sell_filled_def execute_sell_example position_def)
  from order_failure_is_skipped
    [where ex = example_exchange and symbol = "''BTCUSDT''" and current_price = 100
       and now = "''t1''" and w = w,
     THEN conjunct2, THEN conjunct2, THEN conjunct1, rule_format,
     OF conjI [OF h3 conjI [OF h4 h4']]]
  obtain w' where r: "check_and_close_positions example_exchange ''t1'' ''BTCUSDT'' w = (Inr (), w')"
    and cs: "calls w' = calls w @ map (\<lambda>p. (o_AmountBTC p, False, False))
                                     (filter (sell_due 100) (Open_tbl (db w)))"
    and keep: "\<forall>p\<in>set (Open_tbl (db w)). \<not> sell_filled example_exchange ''BTCUSDT'' p
                 \<longrightarrow> p \<in> set (Open_tbl (db w'))"
    and len: "length (Close_tbl (db w')) = length (Close_tbl (db w))
                 + length (filter (sold example_exchange ''BTCUSDT'' 100) (Open_tbl (db w)))"
    by blast
  have "calls w' = [(2, False, False), (1, False, False)]"
    unfolding cs due l by (simp add: position_def)
  moreover have "position 1 2 90 \<in> set (Open_tbl (db w'))"
    using keep f(1) by (simp add: o)
  moreover have "length (Close_tbl (db w')) = 1"
    unfolding len c o by (simp add: f)
  ultimately have c3: "\<exists>w'. check_and_close_positions example_exchange ''t1'' ''BTCUSDT'' w = (Inr (), w')
          \<and> calls w' = [(2, False, False), (1, False, False)]
          \<and> position 1 2 90 \<in> set (Open_tbl (db w'))
          \<and> length (Close_tbl (db w')) = 1"
    using r by (intro exI [of _ w'] conjI)
  have h5: "get_historical_klines (example_exchange\<lparr>get_historical_klines := \<lambda>symbol. ApiFails\<rparr>) ''BTCUSDT''
       = ApiFails" by simp
  note c4 = order_failure_is_skipped
    [where ex = "example_exchange\<lparr>get_historical_klines := \<lambda>symbol. ApiFails\<rparr>"
       and symbol = "''BTCUSDT''" and invest_amount_usd = 100 and now = "''t1''" and w = empty_world,
     THEN conjunct2, THEN conjunct2, THEN conjunct2, THEN conjunct1, rule_format, OF h5]
  have h6: "get_symbol_ticker (example_exchange\<lparr>get_symbol_ticker := \<lambda>symbol. ApiFails\<rparr>) ''BTCUSDT''
       = ApiFails" by simp
  note c5 = order_failure_is_skipped
    [where ex = "example_exchange\<lparr>get_symbol_ticker := \<lambda>symbol. ApiFails\<rparr>"
       and symbol = "''BTCUSDT''" and now = "''t1''" and w = empty_world,
     THEN conjunct2, THEN conjunct2, THEN conjunct2, THEN conjunct2, rule_format, OF h6]
  from h1 c1 h2 c2 h3 h4 h4' c3 h5 c4 h6 c5 show ?thesis
    unfolding w_def by (intro conjI)
qed

section \<open>Properties of the KPI aggregator and of the closed-trade listing\<close>

lemma call_listing_closed: "call_listing ''get_closed_positions'' s = Inl AttributeError"
  by (simp add: call_listing_def data_manager_listing_def)

lemma call_listing_close: "call_listing ''get_close_positions'' s = Inr (get_close_positions s)"
  by (simp add: call_listing_def data_manager_listing_def)

text \<open>
  C7. Every getter of the aggregator calls \<open>get_closed_positions\<close>, a method the data
  manager does not have (it has \<open>get_close_positions\<close>): on every ledger, the empty
  one included, each getter raises \<open>AttributeError\<close> where the average and the ROI
  should be 0.
\<close>

theorem kpi_getters_raise:
  "get_total_profit s = Inl AttributeError
   \<and> get_total_investment s = Inl AttributeError
   \<and> get_total_operations s = Inl AttributeError
   \<and> get_winning_trades s = Inl AttributeError
   \<and> get_losing_trades s = Inl AttributeError
   \<and> get_average_profit_per_trade s = Inl AttributeError
   \<and> get_roi_percentage s = Inl AttributeError"
  by (simp add: get_total_profit_def get_total_investment_def get_total_operations_def
        get_winning_trades_def get_losing_trades_def get_average_profit_per_trade_def
        get_roi_percentage_def call_listing_closed bind_r_def)

text \<open>
  What the getters compute from a list of closed positions, had they received one: the
  counts of trades with profit above 0 and at most 0, which add up to the number of
  trades; the average profit, 0 for no trade; the ROI, 0 for a total investment of 0, and
  also 0 for a negative one.
\<close>

lemma kpi_formulas:
  "winning_trades_of cps = int (length (filter (\<lambda>pos. p_Profit pos > 0) cps))"
  "losing_trades_of cps = int (length (filter (\<lambda>pos. p_Profit pos \<le> 0) cps))"
  "winning_trades_of cps + losing_trades_of cps = int (length cps)"
  "average_profit_per_trade_of tp 0 = 0"
  "n > 0 \<Longrightarrow> average_profit_per_trade_of tp n = tp / of_int n"
  "roi_percentage_of tp 0 = 0"
  "ti > 0 \<Longrightarrow> roi_percentage_of tp ti = tp / ti * 100"
  "ti < 0 \<Longrightarrow> roi_percentage_of tp ti = 0"
proof -
  have "length (filter (\<lambda>pos. p_Profit pos > 0) cps) + length (filter (\<lambda>pos. p_Profit pos \<le> 0) cps)
        = length cps"
    using sum_length_filter_compl [of "\<lambda>pos. p_Profit pos > 0" cps] by (simp add: not_less)
  then show "winning_trades_of cps + losing_trades_of cps = int (length cps)"
    by (simp add: winning_trades_of_def losing_trades_of_def flip: of_nat_add)
qed (simp_all add: winning_trades_of_def losing_trades_of_def average_profit_per_trade_of_def
       roi_percentage_of_def)

text \<open>
  C8. \<open>get_performance_metrics\<close> raises \<open>AttributeError\<close> on every ledger while
  building its dictionary, and leaves the ledger as it was: no row reaches the
  \<open>KPI\<close> table. The dictionary it would build has the keys \<open>date\<close>,
  \<open>total_profit_usd\<close>, ..., none of which is a placeholder of \<open>insert_kpis\<close>,
  which raises \<open>ProgrammingError\<close> on such a dictionary.
\<close>

theorem get_performance_metrics_raises:
  "get_performance_metrics now s = (Inl AttributeError, s)
   \<and> insert_kpis [''date'' \<mapsto> Text now, ''total_profit_usd'' \<mapsto> Number 0,
                   ''total_investment_usd'' \<mapsto> Number 0, ''total_operations'' \<mapsto> Count 0,
                   ''winning_trades'' \<mapsto> Count 0, ''losing_trades'' \<mapsto> Count 0,
                   ''average_profit_per_trade_usd'' \<mapsto> Number 0,
                   ''roi_percentage'' \<mapsto> Number 0, ''unralized_losses'' \<mapsto> Number 0,
                   ''losing_positions_count'' \<mapsto> Count 0, ''calculate_win_rate'' \<mapsto> Number 0,
                   ''calculate_total_return'' \<mapsto> Number 0] (KPI_tbl s)
       = Inl ProgrammingError"
  by (simp add: get_performance_metrics_def performance_metrics_dict_def get_total_profit_def
        call_listing_closed bind_r_def insert_kpis_def)

lemma round_half_even_close: "\<bar>of_int (round_half_even y) - y\<bar> \<le> 1 / 2"
  unfolding round_half_even_def Let_def by (auto simp: abs_if) linarith+

lemma py_round_2_close: "\<bar>py_round x 2 - x\<bar> \<le> 0.005"
proof -
  have "\<bar>py_round x 2 - x\<bar> = \<bar>of_int (round_half_even (x * 100)) - x * 100\<bar> / 100"
    by (simp add: py_round_def field_simps abs_if)
  also have "\<dots> \<le> (1 / 2) / 100"
    using round_half_even_close [of "x * 100"] by (simp add: divide_right_mono)
  finally show ?thesis by simp
qed

lemma py_round_eighth: "py_round 0.125 2 = 0.12"
  by (simp add: py_round_def round_half_even_def Let_def)

lemma get_close_positions_fields:
  "map p_Profit (get_close_positions s) = map (\<lambda>c. py_round (c_Profit c) 2) (Close_tbl s)"
  "map p_BuyDate (get_close_positions s) = map c_BuyDate (Close_tbl s)"
  "map p_SellDate (get_close_positions s) = map c_SellDate (Close_tbl s)"
  "map p_BuyAmountUSD (get_close_positions s) = map c_BuyAmountUSD (Close_tbl s)"
  "map p_SellAmountUSD (get_close_positions s) = map c_SellAmountUSD (Close_tbl s)"
  "map p_AmountBTC (get_close_positions s) = map c_AmountBTC (Close_tbl s)"
  "map p_BuyPrice (get_close_positions s) = map c_BuyPrice (Close_tbl s)"
  "map p_SellPrice (get_close_positions s) = map c_SellPrice (Close_tbl s)"
  by (simp_all add: get_close_positions_def comp_def)

lemma listed_profit_close:
  assumes "pos \<in> set (get_close_positions (run_ledger ops empty_store))"
  shows "\<bar>p_Profit pos - (p_SellAmountUSD pos - p_BuyAmountUSD pos)\<bar> \<le> 0.005"
proof -
  from assms obtain c where c: "c \<in> set (Close_tbl (run_ledger ops empty_store))"
    and pos: "p_Profit pos = py_round (c_Profit c) 2"
      "p_SellAmountUSD pos = c_SellAmountUSD c" "p_BuyAmountUSD pos = c_BuyAmountUSD c"
    by (auto simp: get_close_positions_def)
  have "ledger_inv (run_ledger ops empty_store)"
    by (rule ledger_inv_run [OF ledger_inv_empty])
  with c have "c_Profit c = c_SellAmountUSD c - c_BuyAmountUSD c"
    by (simp add: ledger_inv_def)
  with py_round_2_close [of "c_Profit c"] pos show ?thesis by simp
qed

text \<open>
  C10. After a buy for 100 and a sell for 100.125, the stored profit is 0.125 and the
  listing returns the profit 0.12 beside the unrounded amounts 100.125 and 100, a
  difference of 0.005; the aggregate \<open>get_total_profit\<close> over the same ledger is not
  computed from the listing: it raises \<open>AttributeError\<close>.
\<close>

theorem rounded_listing_not_aggregated:
  "get_close_positions (run_ledger [RecordBuy ''t0'' 100 1 100,
                                    RecordSell ''t1'' 1 100.125 100.125] empty_store)
   = [\<lparr>p_BuyDate = ''t0'', p_SellDate = ''t1'', p_BuyAmountUSD = 100,
        p_SellAmountUSD = 100.125, p_AmountBTC = 1, p_BuyPrice = 100,
        p_SellPrice = 100.125, p_Profit = 0.12\<rparr>]
   \<and> get_total_profit (run_ledger [RecordBuy ''t0'' 100 1 100,
                                   RecordSell ''t1'' 1 100.125 100.125] empty_store)
     = Inl AttributeError"
  by (simp add: get_close_positions_def run_ledger_def record_buy_def record_sell_def
        select_open_def next_rowid_def empty_store_def sqlite_int_def py_round_def
        round_half_even_def Let_def get_total_profit_def call_listing_closed bind_r_def)

end
